theory Spec2Isabelle
  imports Main "HOL-Library.Word"
begin

section \<open>Files and the messages of the data channel\<close>

text \<open>
  A browser \<^verbatim>\<open>File\<close> is modelled by the three attributes the transfer uses: its
  name, its MIME type and its content. Reading a file (\<^verbatim>\<open>file.arrayBuffer()\<close>) may
  reject; a file whose content is \<open>None\<close> is one the browser cannot read.
\<close>

type_synonym byte = "8 word"

record File =
  file_name :: string
  file_type :: string
  file_content :: "byte list option"

datatype failure = NotReadable | ApiFailure | TypeError

definition arrayBuffer :: "File \<Rightarrow> failure + byte list" where
  "arrayBuffer f = (case file_content f of None \<Rightarrow> Inl NotReadable | Some b \<Rightarrow> Inr b)"

text \<open>
  The object that travels over the data channel. The receiver reads it as
  \<^verbatim>\<open>{ type: string; name?: string; mimeType?: string; data?: ArrayBuffer;
  index?: number; total?: number }\<close>, so every field but the tag is optional.
\<close>

record payload =
  msg_type :: string
  msg_name :: "string option"
  msg_mimeType :: "string option"
  msg_data :: "byte list option"
  msg_index :: "int option"
  msg_total :: "int option"

definition file_message :: "File \<Rightarrow> byte list \<Rightarrow> nat \<Rightarrow> nat \<Rightarrow> payload" where
  "file_message f buf i n =
     \<lparr> msg_type = ''file'', msg_name = Some (file_name f), msg_mimeType = Some (file_type f),
       msg_data = Some buf, msg_index = Some (int i), msg_total = Some (int n) \<rparr>"

definition done_message :: payload where
  "done_message =
     \<lparr> msg_type = ''done'', msg_name = None, msg_mimeType = None,
       msg_data = None, msg_index = None, msg_total = None \<rparr>"

section \<open>The sender (MobileUpload.tsx)\<close>

datatype status = Connecting | Connected | Sending | Done | Error

text \<open>
  The component's state. \<open>connRef\<close> is \<open>None\<close> while \<^verbatim>\<open>connRef.current\<close> is null;
  otherwise it holds the messages handed to \<^verbatim>\<open>conn.send\<close> so far, oldest first.
\<close>

record sender =
  status :: status
  selectedFiles :: "File list"
  sendProgress :: nat
  totalFiles :: nat
  connRef :: "payload list option"

definition conn_send :: "payload \<Rightarrow> sender \<Rightarrow> sender" where
  "conn_send p s = s\<lparr> connRef := map_option (\<lambda>log. log @ [p]) (connRef s) \<rparr>"

text \<open>
  The body of the \<^verbatim>\<open>for (let i = 0; i < selectedFiles.length; i++)\<close> loop of
  \<^verbatim>\<open>sendFiles\<close>. \<open>files\<close> is the array the callback closed over. A rejected
  read leaves the function at that point: the state reached so far is returned with
  the failure.
\<close>

function send_loop :: "File list \<Rightarrow> nat \<Rightarrow> sender \<Rightarrow> sender \<times> failure option" where
  "send_loop files i s =
     (if i < length files then
        (case arrayBuffer (files ! i) of
           Inl e \<Rightarrow> (s, Some e)
         | Inr buf \<Rightarrow>
             send_loop files (i + 1)
               ((conn_send (file_message (files ! i) buf i (length files)) s)
                  \<lparr> sendProgress := i + 1 \<rparr>))
      else (s, None))"
  by pat_completeness auto
termination
  by (relation "measure (\<lambda>(files, i, s). length files - i)") auto

definition sendFiles :: "sender \<Rightarrow> sender \<times> failure option" where
  "sendFiles s =
     (case connRef s of
        None \<Rightarrow> (s, None)
      | Some c \<Rightarrow>
          if length (selectedFiles s) = 0 then (s, None)
          else
            (case send_loop (selectedFiles s) 0
                    (s\<lparr> status := Sending, totalFiles := length (selectedFiles s),
                        sendProgress := 0 \<rparr>) of
               (s', Some e) \<Rightarrow> (s', Some e)
             | (s', None) \<Rightarrow> ((conn_send done_message s')\<lparr> status := Done \<rparr>, None)))"

text \<open>The handlers of the connection: \<^verbatim>\<open>conn.on('open')\<close>, \<^verbatim>\<open>conn.on('close')\<close>,
  \<^verbatim>\<open>conn.on('error')\<close>.\<close>

definition conn_open :: "sender \<Rightarrow> sender" where
  "conn_open s = s\<lparr> connRef := Some [], status := Connected \<rparr>"

definition conn_close :: "sender \<Rightarrow> sender" where
  "conn_close s = s\<lparr> status := (if status s = Done then Done else Error) \<rparr>"

definition conn_error :: "sender \<Rightarrow> sender" where
  "conn_error s = s\<lparr> status := Error \<rparr>"

section \<open>The receiver (PhoneUploadModal.tsx)\<close>

datatype ModalStatus =
  M_initializing | M_waiting | M_connected | M_receiving | M_done | M_error

text \<open>
  The modal's state. \<open>receivedFiles\<close> is \<^verbatim>\<open>receivedFilesRef.current\<close>. \<open>delivered\<close>
  records the calls of the \<^verbatim>\<open>onFilesReceived\<close> callback of the hosting application,
  oldest first, each with the content the array had when the call was made (the source
  passes the array itself).
\<close>

record receiver =
  modal_status :: ModalStatus
  qrUrl :: string
  receivedCount :: nat
  totalCount :: int
  receivedFiles :: "File list"
  delivered :: "File list list"

definition initial_receiver :: receiver where
  "initial_receiver =
     \<lparr> modal_status = M_initializing, qrUrl = [], receivedCount = 0, totalCount = 0,
       receivedFiles = [], delivered = [] \<rparr>"

record Blob =
  blob_bytes :: "byte list"
  blob_type :: string

text \<open>
  \<^verbatim>\<open>new Blob([data], { type })\<close> and \<^verbatim>\<open>new File([blob], name, { type })\<close>. Both
  constructors store the type given in lower case, and store the empty string in its
  place when it has a character outside the range U+0020 to U+007E. Strings are byte
  strings here, and every byte of a character beyond ASCII lies outside that range.
  The name is stored as it is given.
\<close>

definition printable_ascii :: "char \<Rightarrow> bool" where
  "printable_ascii c = (0x20 \<le> (of_char c :: nat) \<and> (of_char c :: nat) \<le> 0x7E)"

definition ascii_capital :: "char \<Rightarrow> bool" where
  "ascii_capital c = (0x41 \<le> (of_char c :: nat) \<and> (of_char c :: nat) \<le> 0x5A)"

definition ascii_lowercase :: "char \<Rightarrow> char" where
  "ascii_lowercase c = (if ascii_capital c then char_of ((of_char c :: nat) + 0x20) else c)"

definition normalize_type :: "string \<Rightarrow> string" where
  "normalize_type t = (if list_all printable_ascii t then map ascii_lowercase t else [])"

definition new_Blob :: "byte list \<Rightarrow> string \<Rightarrow> Blob" where
  "new_Blob d t = \<lparr> blob_bytes = d, blob_type = normalize_type t \<rparr>"

definition new_File :: "Blob \<Rightarrow> string \<Rightarrow> string \<Rightarrow> File" where
  "new_File b n t =
     \<lparr> file_name = n, file_type = normalize_type t, file_content = Some (blob_bytes b) \<rparr>"

text \<open>The types that the constructors store unchanged: printable ASCII without a
  capital letter. The types of the platform's own file objects have this form.\<close>

definition stored_form :: "string \<Rightarrow> bool" where
  "stored_form t = list_all (\<lambda>c. printable_ascii c \<and> \<not> ascii_capital c) t"

text \<open>
  The test \<^verbatim>\<open>payload.type === 'file' && payload.data && payload.name && payload.mimeType\<close>:
  an absent field is falsy, the empty string is falsy, an \<^verbatim>\<open>ArrayBuffer\<close> is truthy
  whatever its length.
\<close>

definition accepts :: "payload \<Rightarrow> bool" where
  "accepts p =
     (msg_type p = ''file'' \<and>
      (case msg_data p of None \<Rightarrow> False | Some d \<Rightarrow> True) \<and>
      (case msg_name p of None \<Rightarrow> False | Some n \<Rightarrow> n \<noteq> []) \<and>
      (case msg_mimeType p of None \<Rightarrow> False | Some m \<Rightarrow> m \<noteq> []))"

text \<open>The file the handler builds from a message that passed the test. The last case
  is never reached from \<open>on_data\<close>, which builds a file only after the test.\<close>

definition received_file :: "payload \<Rightarrow> File" where
  "received_file p =
     (case (msg_data p, msg_name p, msg_mimeType p) of
        (Some d, Some n, Some m) \<Rightarrow> new_File (new_Blob d m) n m
      | _ \<Rightarrow> new_File (new_Blob [] []) [] [])"

text \<open>The handler \<^verbatim>\<open>conn.on('data', ...)\<close>: its two \<^verbatim>\<open>if\<close> statements in turn.\<close>

definition on_data :: "payload \<Rightarrow> receiver \<Rightarrow> receiver" where
  "on_data p r =
     (let r1 =
        (if accepts p then
           (let r' = r\<lparr> receivedFiles := receivedFiles r @ [received_file p] \<rparr>
            in r'\<lparr> totalCount := (case msg_total p of None \<Rightarrow> 0 | Some t \<Rightarrow> t),
                   receivedCount := length (receivedFiles r'),
                   modal_status := M_receiving \<rparr>)
         else r)
      in if msg_type p = ''done''
         then r1\<lparr> modal_status := M_done, delivered := delivered r1 @ [receivedFiles r1] \<rparr>
         else r1)"

text \<open>The handler \<^verbatim>\<open>conn.on('close', ...)\<close>.\<close>

definition on_close :: "receiver \<Rightarrow> receiver" where
  "on_close r =
     (if length (receivedFiles r) > 0
      then r\<lparr> modal_status := M_done, delivered := delivered r @ [receivedFiles r] \<rparr>
      else r)"

definition on_connection :: "receiver \<Rightarrow> receiver" where
  "on_connection r = r\<lparr> modal_status := M_connected \<rparr>"

definition on_peer_error :: "receiver \<Rightarrow> receiver" where
  "on_peer_error r = r\<lparr> modal_status := M_error \<rparr>"

subsection \<open>The published address\<close>

text \<open>\<^verbatim>\<open>window.location\<close>: \<open>protocol\<close> is the scheme with its colon, \<open>port\<close> is empty
  for the scheme's default port.\<close>

record location =
  protocol :: string
  hostname :: string
  port :: string

text \<open>
  \<open>LOCAL_IP\<close> is \<^verbatim>\<open>process.env.LOCAL_IP\<close>: the string the build put in its place, or
  \<open>None\<close> when the build defined nothing.
\<close>

definition qr_url :: "string option \<Rightarrow> location \<Rightarrow> string \<Rightarrow> string" where
  "qr_url LOCAL_IP loc pid =
     (let localIP = (case LOCAL_IP of
                       None \<Rightarrow> hostname loc
                     | Some ip \<Rightarrow> if ip \<noteq> [] then ip else hostname loc);
          host = (if hostname loc = ''localhost'' \<or> hostname loc = ''127.0.0.1''
                  then localIP else hostname loc);
          port_part = (if port loc \<noteq> [] then '':'' @ port loc else []);
          baseUrl = protocol loc @ ''//'' @ host @ port_part
      in baseUrl @ ''?mode=upload&peer='' @ pid)"

definition on_peer_open :: "string option \<Rightarrow> location \<Rightarrow> string \<Rightarrow> receiver \<Rightarrow> receiver" where
  "on_peer_open LOCAL_IP loc pid r =
     r\<lparr> qrUrl := qr_url LOCAL_IP loc pid, modal_status := M_waiting \<rparr>"

text \<open>The events the modal reacts to, and a run over a sequence of them.\<close>

datatype event = PeerOpen string | Connection | Data payload | Close | PeerError

fun receiver_step :: "string option \<Rightarrow> location \<Rightarrow> receiver \<Rightarrow> event \<Rightarrow> receiver" where
  "receiver_step ip loc r (PeerOpen pid) = on_peer_open ip loc pid r"
| "receiver_step ip loc r Connection = on_connection r"
| "receiver_step ip loc r (Data p) = on_data p r"
| "receiver_step ip loc r Close = on_close r"
| "receiver_step ip loc r PeerError = on_peer_error r"

definition receiver_run :: "string option \<Rightarrow> location \<Rightarrow> receiver \<Rightarrow> event list \<Rightarrow> receiver" where
  "receiver_run ip loc r evs = foldl (receiver_step ip loc) r evs"

text \<open>The messages of a sequence of events, in their order of arrival.\<close>

fun data_payloads :: "event list \<Rightarrow> payload list" where
  "data_payloads [] = []"
| "data_payloads (Data p # evs) = p # data_payloads evs"
| "data_payloads (ev # evs) = data_payloads evs"

definition is_file_type :: "payload \<Rightarrow> bool" where
  "is_file_type p = (msg_type p = ''file'')"

subsection \<open>The build configuration (vite.config.ts)\<close>

record NetworkInterfaceInfo =
  family :: string
  internal :: bool
  address :: string

text \<open>The inner loop of \<^verbatim>\<open>getLocalIP\<close>: the first IPv4 interface that is not internal.\<close>

fun scan_interface :: "NetworkInterfaceInfo list \<Rightarrow> string option" where
  "scan_interface [] = None"
| "scan_interface (iface # rest) =
     (if family iface = ''IPv4'' \<and> \<not> internal iface then Some (address iface)
      else scan_interface rest)"

text \<open>The outer loop over the names of \<^verbatim>\<open>os.networkInterfaces()\<close>, in the object's key
  order; \<^verbatim>\<open>interfaces[name] || []\<close> reads an absent entry as the empty array.\<close>

fun scan_interfaces :: "(string \<times> NetworkInterfaceInfo list option) list \<Rightarrow> string option" where
  "scan_interfaces [] = None"
| "scan_interfaces ((name, entry) # rest) =
     (case scan_interface (case entry of None \<Rightarrow> [] | Some l \<Rightarrow> l) of
        Some a \<Rightarrow> Some a
      | None \<Rightarrow> scan_interfaces rest)"

definition getLocalIP :: "(string \<times> NetworkInterfaceInfo list option) list \<Rightarrow> string" where
  "getLocalIP interfaces =
     (case scan_interfaces interfaces of Some a \<Rightarrow> a | None \<Rightarrow> ''localhost'')"

text \<open>\<^verbatim>\<open>define: { 'process.env.LOCAL_IP': JSON.stringify(localIP) }\<close>.\<close>

definition defined_LOCAL_IP :: "(string \<times> NetworkInterfaceInfo list option) list \<Rightarrow> string option" where
  "defined_LOCAL_IP interfaces = Some (getLocalIP interfaces)"

definition all_interfaces ::
  "(string \<times> NetworkInterfaceInfo list option) list \<Rightarrow> NetworkInterfaceInfo list" where
  "all_interfaces interfaces =
     concat (map (\<lambda>(name, entry). case entry of None \<Rightarrow> [] | Some l \<Rightarrow> l) interfaces)"

section \<open>Choosing the role (main.tsx)\<close>

text \<open>
  \<^verbatim>\<open>new URLSearchParams(window.location.search)\<close>: a leading question mark is dropped,
  the rest is split at every ampersand, empty pieces are skipped, each piece is split
  at its first equals sign, a plus sign stands for a space, and percent escapes are
  decoded. Strings are byte strings here, so the decoded bytes are the UTF-8 form of
  the parameter; bytes that are no UTF-8, which the platform replaces, are kept, and
  in neither form do they equal one of the ASCII names and values tested below.
\<close>

fun split_on :: "char \<Rightarrow> string \<Rightarrow> string list" where
  "split_on c [] = [[]]"
| "split_on c (x # xs) =
     (if x = c then [] # split_on c xs
      else (case split_on c xs of
              [] \<Rightarrow> [[x]]
            | y # ys \<Rightarrow> (x # y) # ys))"

definition hex_value :: "char \<Rightarrow> nat option" where
  "hex_value c =
     (let n = (of_char c :: nat) in
      if 48 \<le> n \<and> n \<le> 57 then Some (n - 48)
      else if 65 \<le> n \<and> n \<le> 70 then Some (n - 55)
      else if 97 \<le> n \<and> n \<le> 102 then Some (n - 87)
      else None)"

fun percent_decode :: "string \<Rightarrow> string" where
  "percent_decode (c # h1 # h2 # rest) =
     (if c = CHR ''%'' then
        (case (hex_value h1, hex_value h2) of
           (Some a, Some b) \<Rightarrow> char_of (16 * a + b) # percent_decode rest
         | _ \<Rightarrow> c # percent_decode (h1 # h2 # rest))
      else c # percent_decode (h1 # h2 # rest))"
| "percent_decode (c # rest) = c # percent_decode rest"
| "percent_decode [] = []"

definition plus_to_space :: "string \<Rightarrow> string" where
  "plus_to_space bs = map (\<lambda>c. if c = CHR ''+'' then CHR '' '' else c) bs"

definition parse_pair :: "string \<Rightarrow> string \<times> string" where
  "parse_pair bs =
     (let (n, v) = (case dropWhile (\<lambda>c. c \<noteq> CHR ''='') bs of
                      [] \<Rightarrow> (bs, [])
                    | e # after \<Rightarrow> (takeWhile (\<lambda>c. c \<noteq> CHR ''='') bs, after))
      in (percent_decode (plus_to_space n), percent_decode (plus_to_space v)))"

definition URLSearchParams :: "string \<Rightarrow> (string \<times> string) list" where
  "URLSearchParams init =
     (let q = (case init of c # rest \<Rightarrow> if c = CHR ''?'' then rest else init | [] \<Rightarrow> init)
      in map parse_pair (filter (\<lambda>bs. bs \<noteq> []) (split_on CHR ''&'' q)))"

text \<open>\<^verbatim>\<open>params.get(name)\<close> is the value of the first pair of that name, or null;
  \<^verbatim>\<open>params.has(name)\<close> tells whether there is such a pair.\<close>

fun params_get :: "(string \<times> string) list \<Rightarrow> string \<Rightarrow> string option" where
  "params_get [] k = None"
| "params_get ((n, v) # ps) k = (if n = k then Some v else params_get ps k)"

fun params_has :: "(string \<times> string) list \<Rightarrow> string \<Rightarrow> bool" where
  "params_has [] k = False"
| "params_has ((n, v) # ps) k = (if n = k then True else params_has ps k)"

definition isMobileUpload :: "string \<Rightarrow> bool" where
  "isMobileUpload search =
     (let params = URLSearchParams search
      in params_get params ''mode'' = Some ''upload'' \<and> params_has params ''peer'')"

datatype role = MobileUpload | App

definition root_component :: "string \<Rightarrow> role" where
  "root_component search = (if isMobileUpload search then MobileUpload else App)"

text \<open>
  The sender's start: \<^verbatim>\<open>remotePeerId = params.get('peer') || ''\<close>, the initial state
  of the component, and the first branch of its effect, which gives up when there is
  no identifier to connect to.
\<close>

definition remotePeerId :: "string \<Rightarrow> string" where
  "remotePeerId search =
     (case params_get (URLSearchParams search) ''peer'' of None \<Rightarrow> [] | Some v \<Rightarrow> v)"

definition initial_sender :: sender where
  "initial_sender =
     \<lparr> status = Connecting, selectedFiles = [], sendProgress = 0, totalFiles = 0,
       connRef = None \<rparr>"

definition mount_sender :: "string \<Rightarrow> sender" where
  "mount_sender search =
     (if remotePeerId search = [] then initial_sender\<lparr> status := Error \<rparr>
      else initial_sender)"

section \<open>Text extraction and document assembly (App.tsx)\<close>

datatype alignment = AlignLeft | AlignCenter | AlignRight

text \<open>A block \<^verbatim>\<open>{ text: string; alignment: 'left' | 'center' | 'right' }\<close>.\<close>

record block =
  block_text :: string
  block_alignment :: alignment

text \<open>\<^verbatim>\<open>response.text || d\<close>: an absent or empty text gives the default.\<close>

definition text_or :: "string option \<Rightarrow> string \<Rightarrow> string" where
  "text_or t d = (case t of None \<Rightarrow> d | Some x \<Rightarrow> if x = [] then d else x)"

text \<open>
  The values the program handles after parsing: what \<^verbatim>\<open>JSON.parse\<close> can return, and
  \<^verbatim>\<open>undefined\<close>, which reading an absent member gives. A number is kept as the text
  JavaScript prints for it; an object is the list of its members, each name once.
\<close>

datatype jsval =
  JUndefined | JNull | JBool bool | JNumber string | JString string
| JArray "jsval list" | JObject "(string \<times> jsval) list"

text \<open>The block pushed when parsing throws:
  \<^verbatim>\<open>[{ text: response.text || "", alignment: 'left' }]\<close>.\<close>

definition fallback_blocks :: "string option \<Rightarrow> jsval" where
  "fallback_blocks t =
     JArray [JObject [(''text'', JString (text_or t [])), (''alignment'', JString ''left'')]]"

text \<open>
  The loop of \<^verbatim>\<open>extractTextFromImages\<close>, one round per selected image. The
  collaborator's answer for an image is \<open>Inl\<close> when the call is rejected and
  \<open>Inr t\<close> when it returns a response whose \<^verbatim>\<open>text\<close> is \<open>t\<close>. \<open>parse\<close> is
  \<^verbatim>\<open>JSON.parse\<close>: \<open>None\<close> when it throws, the value parsed otherwise, which is
  pushed whatever it is.
\<close>

fun extract_loop ::
  "(string \<Rightarrow> jsval option) \<Rightarrow> (failure + string option) list \<Rightarrow> jsval list \<Rightarrow>
   failure + jsval list" where
  "extract_loop parse [] extractedData = Inr extractedData"
| "extract_loop parse (response # rest) extractedData =
     (case response of
        Inl e \<Rightarrow> Inl e
      | Inr t \<Rightarrow>
          (case parse (text_or t ''[]'') of
             Some parsed \<Rightarrow> extract_loop parse rest (extractedData @ [parsed])
           | None \<Rightarrow> extract_loop parse rest (extractedData @ [fallback_blocks t])))"


subsection \<open>Reading members and making strings\<close>

text \<open>
  \<^verbatim>\<open>v.text\<close> and \<^verbatim>\<open>v.alignment\<close>: reading a member of \<^verbatim>\<open>null\<close> or
  \<^verbatim>\<open>undefined\<close> throws; an object gives its member of that name, or \<^verbatim>\<open>undefined\<close>;
  every other value gives \<^verbatim>\<open>undefined\<close>. This is the reading of a name that neither
  \<^verbatim>\<open>Object.prototype\<close> nor strings, numbers, booleans or arrays define, as these two
  names are.
\<close>

fun get_member :: "jsval \<Rightarrow> string \<Rightarrow> failure + jsval" where
  "get_member JUndefined k = Inl TypeError"
| "get_member JNull k = Inl TypeError"
| "get_member (JObject members) k =
     Inr (case map_of members k of None \<Rightarrow> JUndefined | Some v \<Rightarrow> v)"
| "get_member v k = Inr JUndefined"

text \<open>
  The conversion of a value to a string, as string concatenation, \<^verbatim>\<open>join\<close> and the
  reading of a member by a computed name perform it. An array is joined with commas.
  An object parsed from JSON prints as \<^verbatim>\<open>[object Object]\<close>, unless it has a member
  named \<^verbatim>\<open>toString\<close>: that member is no function and hides the inherited one, and
  the conversion throws. \<^verbatim>\<open>join\<close> prints \<^verbatim>\<open>null\<close> and \<^verbatim>\<open>undefined\<close> as the
  empty string.
\<close>

fun js_toString :: "jsval \<Rightarrow> failure + string"
  and js_join :: "string \<Rightarrow> jsval list \<Rightarrow> failure + string" where
  "js_toString JUndefined = Inr ''undefined''"
| "js_toString JNull = Inr ''null''"
| "js_toString (JBool b) = Inr (if b then ''true'' else ''false'')"
| "js_toString (JNumber n) = Inr n"
| "js_toString (JString x) = Inr x"
| "js_toString (JArray items) = js_join '','' items"
| "js_toString (JObject members) =
     (if map_of members ''toString'' \<noteq> None then Inl TypeError else Inr ''[object Object]'')"
| "js_join sep [] = Inr []"
| "js_join sep (x # rest) =
     (case (case x of JUndefined \<Rightarrow> Inr [] | JNull \<Rightarrow> Inr [] | _ \<Rightarrow> js_toString x) of
        Inl e \<Rightarrow> Inl e
      | Inr a \<Rightarrow>
          (if rest = [] then Inr a
           else (case js_join sep rest of
                   Inl e \<Rightarrow> Inl e
                 | Inr b \<Rightarrow> Inr (a @ sep @ b))))"

subsection \<open>The document at the declared type of the blocks\<close>

text \<open>\<^verbatim>\<open>extractedData\<close> is declared as an array of arrays of blocks. This
  subsection has the loops of \<^verbatim>\<open>convertToDocx\<close> at values of that type; the next one
  has them at the values the program can meet.\<close>

datatype AlignmentType = LEFT | CENTER | RIGHT

text \<open>A paragraph of the document: its alignment and spacing when given, and the text
  of its single run.\<close>

record Paragraph =
  para_alignment :: "AlignmentType option"
  para_run :: string
  para_spacing_after :: "nat option"

definition alignmentMap :: "alignment \<Rightarrow> AlignmentType option" where
  "alignmentMap a =
     (case a of AlignLeft \<Rightarrow> Some LEFT | AlignCenter \<Rightarrow> Some CENTER | AlignRight \<Rightarrow> Some RIGHT)"

definition block_paragraph :: "block \<Rightarrow> Paragraph" where
  "block_paragraph b =
     \<lparr> para_alignment =
         Some (case alignmentMap (block_alignment b) of Some a \<Rightarrow> a | None \<Rightarrow> LEFT),
       para_run = block_text b,
       para_spacing_after = Some 200 \<rparr>"

definition blank_paragraph :: Paragraph where
  "blank_paragraph = \<lparr> para_alignment = None, para_run = [], para_spacing_after = None \<rparr>"

text \<open>The two nested \<^verbatim>\<open>forEach\<close> loops of \<^verbatim>\<open>convertToDocx\<close>, threading
  \<^verbatim>\<open>children\<close> and \<^verbatim>\<open>allText\<close>.\<close>

definition add_block :: "Paragraph list \<times> string \<Rightarrow> block \<Rightarrow> Paragraph list \<times> string" where
  "add_block acc b =
     (case acc of (children, allText) \<Rightarrow>
        (children @ [block_paragraph b], allText @ block_text b @ '' ''))"

definition add_image :: "Paragraph list \<times> string \<Rightarrow> block list \<Rightarrow> Paragraph list \<times> string" where
  "add_image acc imageBlocks =
     (case foldl add_block acc imageBlocks of (children, allText) \<Rightarrow>
        (children @ [blank_paragraph], allText))"

definition document_children :: "block list list \<Rightarrow> Paragraph list \<times> string" where
  "document_children extractedData = foldl add_image ([], []) extractedData"

subsection \<open>The document and the text at the values of the program\<close>

text \<open>
  The value of \<^verbatim>\<open>alignmentMap[key]\<close>: the member of the map for its own three keys,
  the member every object inherits from \<^verbatim>\<open>Object.prototype\<close> for the name of one,
  and \<^verbatim>\<open>undefined\<close> (here \<open>None\<close>) otherwise. The members are non-empty strings and
  the inherited ones functions or objects, so \<^verbatim>\<open>|| AlignmentType.LEFT\<close> replaces
  \<^verbatim>\<open>undefined\<close> only.
\<close>

datatype alignment_value = Own AlignmentType | Inherited string

definition object_prototype_names :: "string list" where
  "object_prototype_names =
     [''constructor'', ''hasOwnProperty'', ''isPrototypeOf'', ''propertyIsEnumerable'',
      ''toLocaleString'', ''toString'', ''valueOf'', ''__proto__'', ''__defineGetter__'',
      ''__defineSetter__'', ''__lookupGetter__'', ''__lookupSetter__'']"

definition alignmentMap_lookup :: "string \<Rightarrow> alignment_value option" where
  "alignmentMap_lookup key =
     (if key = ''left'' then Some (Own LEFT)
      else if key = ''center'' then Some (Own CENTER)
      else if key = ''right'' then Some (Own RIGHT)
      else if key \<in> set object_prototype_names then Some (Inherited key)
      else None)"

text \<open>
  A call \<^verbatim>\<open>new Paragraph({ alignment, children: [new TextRun(run)], spacing })\<close>,
  recorded by what the program hands to the constructors of the document library. What
  the library does with a value outside the type it declares is not part of the model.
\<close>

record paragraph_options =
  opt_alignment :: "alignment_value option"
  opt_run :: jsval
  opt_spacing_after :: "nat option"

definition blank_options :: paragraph_options where
  "blank_options = \<lparr> opt_alignment = None, opt_run = JString [], opt_spacing_after = None \<rparr>"

text \<open>
  The body of the inner loop: \<^verbatim>\<open>allText += block.text + ' '\<close>, then the paragraph
  with \<^verbatim>\<open>alignmentMap[block.alignment] || AlignmentType.LEFT\<close> and
  \<^verbatim>\<open>new TextRun(block.text)\<close>.
\<close>

definition js_add_block ::
  "paragraph_options list \<times> string \<Rightarrow> jsval \<Rightarrow> failure + paragraph_options list \<times> string" where
  "js_add_block acc b =
     (case acc of (children, allText) \<Rightarrow>
        (case get_member b ''text'' of
           Inl e \<Rightarrow> Inl e
         | Inr t \<Rightarrow>
             (case js_toString t of
                Inl e \<Rightarrow> Inl e
              | Inr printed \<Rightarrow>
                  (case get_member b ''alignment'' of
                     Inl e \<Rightarrow> Inl e
                   | Inr a \<Rightarrow>
                       (case js_toString a of
                          Inl e \<Rightarrow> Inl e
                        | Inr key \<Rightarrow>
                            Inr (children @
                                   [\<lparr> opt_alignment =
                                        Some (case alignmentMap_lookup key of
                                                Some x \<Rightarrow> x | None \<Rightarrow> Own LEFT),
                                      opt_run = t,
                                      opt_spacing_after = Some 200 \<rparr>],
                                 allText @ printed @ '' ''))))))"

text \<open>\<^verbatim>\<open>imageBlocks.forEach(block => ...)\<close>, which stops at the first throw.\<close>

fun js_add_blocks ::
  "paragraph_options list \<times> string \<Rightarrow> jsval list \<Rightarrow> failure + paragraph_options list \<times> string" where
  "js_add_blocks acc [] = Inr acc"
| "js_add_blocks acc (b # bs) =
     (case js_add_block acc b of Inl e \<Rightarrow> Inl e | Inr acc' \<Rightarrow> js_add_blocks acc' bs)"

text \<open>The body of the outer loop. A value that is no array has no \<^verbatim>\<open>forEach\<close> to
  call, and the call throws.\<close>

definition js_add_image ::
  "paragraph_options list \<times> string \<Rightarrow> jsval \<Rightarrow> failure + paragraph_options list \<times> string" where
  "js_add_image acc imageBlocks =
     (case imageBlocks of
        JArray bs \<Rightarrow>
          (case js_add_blocks acc bs of
             Inl e \<Rightarrow> Inl e
           | Inr (children, allText) \<Rightarrow> Inr (children @ [blank_options], allText))
      | _ \<Rightarrow> Inl TypeError)"

fun js_add_images ::
  "paragraph_options list \<times> string \<Rightarrow> jsval list \<Rightarrow> failure + paragraph_options list \<times> string" where
  "js_add_images acc [] = Inr acc"
| "js_add_images acc (imageBlocks # rest) =
     (case js_add_image acc imageBlocks of
        Inl e \<Rightarrow> Inl e
      | Inr acc' \<Rightarrow> js_add_images acc' rest)"



text \<open>\<^verbatim>\<open>blocks.map(b => b.text)\<close>, which stops at the first throw.\<close>

fun text_members :: "jsval list \<Rightarrow> failure + jsval list" where
  "text_members [] = Inr []"
| "text_members (b # bs) =
     (case get_member b ''text'' of
        Inl e \<Rightarrow> Inl e
      | Inr t \<Rightarrow> (case text_members bs of Inl e \<Rightarrow> Inl e | Inr ts \<Rightarrow> Inr (t # ts)))"

text \<open>\<^verbatim>\<open>blocks.map(b => b.text).join('\n')\<close>. A value that is no array has no
  \<^verbatim>\<open>map\<close> to call, and the call throws.\<close>

definition image_text :: "jsval \<Rightarrow> failure + string" where
  "image_text blocks =
     (case blocks of
        JArray bs \<Rightarrow>
          (case text_members bs of Inl e \<Rightarrow> Inl e | Inr ts \<Rightarrow> js_join [CHR 0x0A] ts)
      | _ \<Rightarrow> Inl TypeError)"

fun image_texts :: "jsval list \<Rightarrow> failure + string list" where
  "image_texts [] = Inr []"
| "image_texts (blocks # rest) =
     (case image_text blocks of
        Inl e \<Rightarrow> Inl e
      | Inr x \<Rightarrow> (case image_texts rest of Inl e \<Rightarrow> Inl e | Inr xs \<Rightarrow> Inr (x # xs)))"



subsection \<open>Values of the declared type\<close>





section \<open>Example inputs\<close>

definition example_files :: "File list" where
  "example_files =
     [\<lparr> file_name = ''a.jpg'', file_type = ''image/jpeg'', file_content = Some [0xFF, 0xD8] \<rparr>,
      \<lparr> file_name = ''b.png'', file_type = ''image/png'', file_content = Some [0x89] \<rparr>]"

definition example_sender :: sender where
  "example_sender = (conn_open initial_sender)\<lparr> selectedFiles := example_files \<rparr>"

text \<open>A file whose type the browser could not tell: its \<^verbatim>\<open>type\<close> is the empty string.\<close>

definition untyped_file :: File where
  "untyped_file = \<lparr> file_name = ''scan.heic'', file_type = [], file_content = Some [0x00] \<rparr>"

text \<open>A file object made with a type in capitals, as no file picked on the platform
  has it.\<close>

definition capital_file :: File where
  "capital_file = \<lparr> file_name = ''C.JPG'', file_type = ''IMAGE/JPEG'', file_content = Some [0xFF] \<rparr>"

definition mixed_sender :: sender where
  "mixed_sender = (conn_open initial_sender)\<lparr> selectedFiles := [example_files ! 0, untyped_file] \<rparr>"

definition wire :: "sender \<Rightarrow> payload list" where
  "wire s = (case connRef s of None \<Rightarrow> [] | Some log \<Rightarrow> log)"

definition example_location :: location where
  "example_location = \<lparr> protocol = ''http:'', hostname = ''localhost'', port = ''3000'' \<rparr>"

text \<open>A receiver that has published its address, accepted a connection and received the
  first of two announced files.\<close>

definition example_receiving :: receiver where
  "example_receiving =
     receiver_run None example_location initial_receiver
       [PeerOpen ''abc'', Connection, Data (file_message (example_files ! 0) [0xFF, 0xD8] 0 2)]"

text \<open>The interfaces of a build machine: the loopback interface and one wireless
  interface with an IPv6 and an IPv4 address.\<close>

definition example_interfaces :: "(string \<times> NetworkInterfaceInfo list option) list" where
  "example_interfaces =
     [(''lo'', Some [\<lparr> family = ''IPv4'', internal = True, address = ''127.0.0.1'' \<rparr>]),
      (''wlan0'', Some [\<lparr> family = ''IPv6'', internal = False, address = ''fe80::1'' \<rparr>,
                        \<lparr> family = ''IPv4'', internal = False, address = ''192.168.1.20'' \<rparr>])]"

definition loopback_only_interfaces :: "(string \<times> NetworkInterfaceInfo list option) list" where
  "loopback_only_interfaces =
     [(''lo'', Some [\<lparr> family = ''IPv4'', internal = True, address = ''127.0.0.1'' \<rparr>,
                     \<lparr> family = ''IPv6'', internal = True, address = ''::1'' \<rparr>])]"

definition ipv6_loopback_location :: location where
  "ipv6_loopback_location = \<lparr> protocol = ''http:'', hostname = ''[::1]'', port = ''5173'' \<rparr>"

definition numeric_loopback_location :: location where
  "numeric_loopback_location = \<lparr> protocol = ''http:'', hostname = ''127.0.0.1'', port = ''3000'' \<rparr>"

definition lan_location :: location where
  "lan_location = \<lparr> protocol = ''https:'', hostname = ''192.168.1.20'', port = [] \<rparr>"







section \<open>Properties of the sender\<close>


lemma send_loop_step:
  "i < length files \<Longrightarrow> file_content (files ! i) = Some buf \<Longrightarrow>
   send_loop files i s =
     send_loop files (Suc i)
       ((conn_send (file_message (files ! i) buf i (length files)) s)\<lparr> sendProgress := Suc i \<rparr>)"
  by (simp add: arrayBuffer_def)

lemma send_loop_end: "\<not> i < length files \<Longrightarrow> send_loop files i s = (s, None)"
  by simp

declare send_loop.simps [simp del]



lemma send_loop_readable:
  "\<forall>k<length files. file_content (files ! k) \<noteq> None \<Longrightarrow> snd (send_loop files i s) = None"
proof (induction files i s rule: send_loop.induct)
  case (1 files i s)
  show ?case
  proof (cases "i < length files")
    case False
    then show ?thesis by (simp add: send_loop_end)
  next
    case True
    with "1.prems" obtain buf where b: "file_content (files ! i) = Some buf"
      by auto
    have ab: "arrayBuffer (files ! i) = Inr buf"
      using b by (simp add: arrayBuffer_def)
    show ?thesis
      using "1.IH" [OF True ab "1.prems"] True b by (simp add: send_loop_step)
  qed
qed





text \<open>A run over an open connection whose files can all be read ends without a failure.\<close>

lemma sendFiles_succeeds:
  "\<forall>k<length (selectedFiles s). file_content (selectedFiles s ! k) \<noteq> None \<Longrightarrow>
   snd (sendFiles s) = None"
proof -
  assume readable: "\<forall>k<length (selectedFiles s). file_content (selectedFiles s ! k) \<noteq> None"
  let ?s0 = "s\<lparr> status := Sending, totalFiles := length (selectedFiles s), sendProgress := 0 \<rparr>"
  from send_loop_readable [OF readable, of 0 ?s0]
  show ?thesis
    by (auto simp: sendFiles_def split: option.splits prod.splits)
qed

lemma example_sendFiles:
  "sendFiles example_sender =
     (example_sender
        \<lparr> status := Done, sendProgress := 2, totalFiles := 2,
          connRef := Some
            [file_message (example_files ! 0) [0xFF, 0xD8] 0 2,
             file_message (example_files ! 1) [0x89] 1 2,
             done_message] \<rparr>, None)"
  by (simp add: sendFiles_def example_sender_def example_files_def conn_open_def
      initial_sender_def send_loop.simps arrayBuffer_def conn_send_def file_message_def)


text \<open>
  C7. The close handler of the sender's connection keeps a sender that has reached
  \<open>Done\<close> in \<open>Done\<close>, and moves a sender in any other state to \<open>Error\<close>.
\<close>

theorem conn_close_after_done:
  "(status s = Done \<longrightarrow> status (conn_close s) = Done) \<and>
   (status s \<noteq> Done \<longrightarrow> status (conn_close s) = Error)"
  by (simp add: conn_close_def)

theorem conn_close_after_done_witness:
  "status (fst (sendFiles example_sender)) = Done \<and>
   status (conn_close (fst (sendFiles example_sender))) = Done \<and>
   status example_sender \<noteq> Done \<and>
   status (conn_close example_sender) = Error"
proof -
  have d: "status (fst (sendFiles example_sender)) = Done"
    by (simp add: example_sendFiles)
  have n: "status example_sender \<noteq> Done"
    by (simp add: example_sender_def conn_open_def)
  from conn_close_after_done [of "fst (sendFiles example_sender)"]
       conn_close_after_done [of example_sender] d n
  show ?thesis
    by blast
qed

section \<open>Properties of the receiver\<close>

lemma normalize_type_stored: "stored_form t \<Longrightarrow> normalize_type t = t"
proof -
  assume st: "stored_form t"
  then have p: "list_all printable_ascii t"
    by (induction t) (simp_all add: stored_form_def)
  from st have "map ascii_lowercase t = t"
    by (induction t) (simp_all add: stored_form_def ascii_lowercase_def)
  with p show ?thesis
    by (simp add: normalize_type_def)
qed

lemma normalize_type_fixed: "normalize_type t = t \<Longrightarrow> stored_form t"
proof -
  assume fixed: "normalize_type t = t"
  have p: "list_all printable_ascii t"
  proof (rule ccontr)
    assume n: "\<not> list_all printable_ascii t"
    then have "normalize_type t = []"
      by (simp add: normalize_type_def)
    with fixed have "t = []" by simp
    with n show False by simp
  qed
  with fixed have m: "map ascii_lowercase t = t"
    by (simp add: normalize_type_def)
  have low: "\<not> ascii_capital (ascii_lowercase c)" for c
  proof (cases "ascii_capital c")
    case False
    then show ?thesis by (simp add: ascii_lowercase_def)
  next
    case True
    then have "(of_char c :: nat) + 0x20 < 256"
      by (simp add: ascii_capital_def)
    then have "(of_char (char_of ((of_char c :: nat) + 0x20)) :: nat) = of_char c + 0x20"
      by simp
    with True show ?thesis
      by (simp add: ascii_lowercase_def ascii_capital_def)
  qed
  have "list_all (\<lambda>c. \<not> ascii_capital c) (map ascii_lowercase t)"
    by (induction t) (simp_all add: low)
  with m have "list_all (\<lambda>c. \<not> ascii_capital c) t"
    by simp
  with p show ?thesis
    by (simp add: stored_form_def list_all_iff)
qed

lemma example_types:
  "normalize_type ''image/jpeg'' = ''image/jpeg''"
  "normalize_type ''image/png'' = ''image/png''"
  "normalize_type [] = []"
  by (simp_all add: normalize_type_def printable_ascii_def ascii_lowercase_def ascii_capital_def)

text \<open>A type written in capitals is stored in lower case.\<close>

lemma capital_type_lowered: "normalize_type ''IMAGE/JPEG'' = ''image/jpeg''"
  by code_simp

lemma on_data_receivedFiles:
  "receivedFiles (on_data p r) =
     receivedFiles r @ (if accepts p then [received_file p] else [])"
  by (simp add: on_data_def Let_def)

lemma receiver_step_receivedFiles:
  "receivedFiles (receiver_step ip loc r ev) =
     receivedFiles r @ map received_file (filter accepts (data_payloads [ev]))"
  by (cases ev)
     (simp_all add: on_data_receivedFiles on_close_def on_connection_def on_peer_error_def
        on_peer_open_def)

lemma data_payloads_Cons:
  "data_payloads (ev # evs) = data_payloads [ev] @ data_payloads evs"
  by (cases ev) simp_all

lemma receiver_run_receivedFiles:
  "receivedFiles (receiver_run ip loc r evs) =
     receivedFiles r @ map received_file (filter accepts (data_payloads evs))"
proof (induction evs arbitrary: r)
  case Nil
  show ?case by (simp add: receiver_run_def)
next
  case (Cons ev evs)
  have "receiver_run ip loc r (ev # evs) = receiver_run ip loc (receiver_step ip loc r ev) evs"
    by (simp add: receiver_run_def)
  then show ?case
    using Cons.IH [of "receiver_step ip loc r ev"]
    by (simp add: receiver_step_receivedFiles data_payloads_Cons [of ev evs])
qed

lemma done_not_accepted: "msg_type p = ''done'' \<Longrightarrow> \<not> accepts p"
  by (simp add: accepts_def)

lemma mixed_sendFiles:
  "wire (fst (sendFiles mixed_sender)) =
     [file_message (example_files ! 0) [0xFF, 0xD8] 0 2,
      file_message untyped_file [0x00] 1 2,
      done_message]"
  by (simp add: sendFiles_def mixed_sender_def example_files_def untyped_file_def conn_open_def
      initial_sender_def send_loop.simps arrayBuffer_def conn_send_def file_message_def wire_def)

text \<open>
  C10. A message of type file whose name or MIME type is missing or empty, or whose
  data is missing, leaves the receiver as it was: the collection, the received count,
  the total count and the status are unchanged (and nothing is delivered).
\<close>

theorem falsy_file_message_discarded:
  assumes "msg_type p = ''file''"
    and "msg_name p = None \<or> msg_name p = Some [] \<or>
         msg_mimeType p = None \<or> msg_mimeType p = Some [] \<or> msg_data p = None"
  shows "receivedFiles (on_data p r) = receivedFiles r \<and>
         receivedCount (on_data p r) = receivedCount r \<and>
         totalCount (on_data p r) = totalCount r \<and>
         modal_status (on_data p r) = modal_status r \<and>
         on_data p r = r"
proof -
  from assms(2) have "\<not> accepts p"
    by (auto simp: accepts_def)
  with assms(1) have "on_data p r = r"
    by (simp add: on_data_def)
  then show ?thesis by simp
qed

lemma example_receiving_state:
  "example_receiving =
     \<lparr> modal_status = M_receiving,
       qrUrl = ''http://localhost:3000?mode=upload&peer=abc'',
       receivedCount = 1, totalCount = 2,
       receivedFiles = [example_files ! 0], delivered = [] \<rparr>"
  by (simp add: example_receiving_def receiver_run_def on_peer_open_def qr_url_def
      example_location_def initial_receiver_def on_connection_def on_data_def accepts_def
      file_message_def received_file_def new_File_def new_Blob_def example_types example_files_def)

theorem falsy_file_message_discarded_witness:
  "msg_type (file_message untyped_file [0x00] 1 2) = ''file'' \<and>
   msg_mimeType (file_message untyped_file [0x00] 1 2) = Some [] \<and>
   receivedFiles (on_data (file_message untyped_file [0x00] 1 2) example_receiving) =
     [example_files ! 0] \<and>
   receivedCount (on_data (file_message untyped_file [0x00] 1 2) example_receiving) = 1 \<and>
   totalCount (on_data (file_message untyped_file [0x00] 1 2) example_receiving) = 2 \<and>
   modal_status (on_data (file_message untyped_file [0x00] 1 2) example_receiving) = M_receiving"
proof -
  have t: "msg_type (file_message untyped_file [0x00] 1 2) = ''file''"
    by (simp add: file_message_def)
  have m: "msg_mimeType (file_message untyped_file [0x00] 1 2) = Some []"
    by (simp add: file_message_def untyped_file_def)
  from falsy_file_message_discarded [of "file_message untyped_file [0x00] 1 2" example_receiving]
       t m
  show ?thesis
    by (simp add: example_receiving_state)
qed

text \<open>
  C3, as the code has it. When the receiver finalizes, on a done message or on a close
  of the channel, the collection it hands over holds one file for each message received
  so far that passed the receiver's test (type file, data present, name and MIME type
  present and not empty), in the order of arrival; its length is the number of those
  messages. A close finalizes only when that number is positive: when it is zero, the
  close delivers nothing and leaves the receiver as it was.
\<close>

theorem finalized_collection_length:
  assumes r: "r = receiver_run ip loc initial_receiver evs"
    and n: "n = length (filter accepts (data_payloads evs))"
  shows "(msg_type p = ''done'' \<longrightarrow>
            delivered (on_data p r) =
              delivered r @ [map received_file (filter accepts (data_payloads evs))] \<and>
            length (last (delivered (on_data p r))) = n) \<and>
         (0 < n \<longrightarrow>
            delivered (on_close r) =
              delivered r @ [map received_file (filter accepts (data_payloads evs))] \<and>
            length (last (delivered (on_close r))) = n) \<and>
         (n = 0 \<longrightarrow> on_close r = r \<and> delivered (on_close r) = delivered r)"
proof -
  have files: "receivedFiles r = map received_file (filter accepts (data_payloads evs))"
    using r by (simp add: receiver_run_receivedFiles initial_receiver_def)
  have a: "delivered (on_data p r) = delivered r @ [receivedFiles r]" if "msg_type p = ''done''"
    using that done_not_accepted [OF that] by (simp add: on_data_def)
  have b: "delivered (on_close r) = delivered r @ [receivedFiles r]" if "0 < n"
    using that files n by (simp add: on_close_def)
  have c: "on_close r = r" if "n = 0"
    using that files n by (simp add: on_close_def)
  from a b c files n show ?thesis
    by simp
qed

theorem finalized_collection_length_witness:
  "delivered
     (on_data done_message
        (receiver_run None example_location initial_receiver
           (Connection # map Data (butlast (wire (fst (sendFiles mixed_sender))))))) =
     [[example_files ! 0]] \<and>
   delivered
     (on_close
        (receiver_run None example_location initial_receiver
           (Connection # map Data (butlast (wire (fst (sendFiles mixed_sender))))))) =
     [[example_files ! 0]] \<and>
   length (filter accepts
       (data_payloads (Connection # map Data (butlast (wire (fst (sendFiles mixed_sender))))))) = 1 \<and>
   length (filter accepts
       (data_payloads [Connection, Data (file_message untyped_file [0x00] 0 1)])) = 0 \<and>
   delivered
     (on_close
        (receiver_run None example_location initial_receiver
           [Connection, Data (file_message untyped_file [0x00] 0 1)])) = [] \<and>
   modal_status
     (on_close
        (receiver_run None example_location initial_receiver
           [Connection, Data (file_message untyped_file [0x00] 0 1)])) = M_connected"
proof -
  let ?evs0 = "[Connection, Data (file_message untyped_file [0x00] 0 1)]"
  let ?r0 = "receiver_run None example_location initial_receiver ?evs0"
  have acc0: "length (filter accepts (data_payloads ?evs0)) = 0"
    by (simp add: accepts_def file_message_def untyped_file_def)
  have r0: "?r0 = initial_receiver\<lparr> modal_status := M_connected \<rparr>"
    by (simp add: receiver_run_def on_connection_def on_data_def accepts_def
        file_message_def untyped_file_def)
  have c0: "on_close ?r0 = ?r0"
    using finalized_collection_length [OF refl acc0 [symmetric], of done_message,
        THEN conjunct2, THEN conjunct2]
    by simp
  have z: "delivered (on_close ?r0) = [] \<and> modal_status (on_close ?r0) = M_connected"
    unfolding c0 unfolding r0 by (simp add: initial_receiver_def)
  let ?evs = "Connection # map Data (butlast (wire (fst (sendFiles mixed_sender))))"
  let ?r = "receiver_run None example_location initial_receiver ?evs"
  have acc: "filter accepts (data_payloads ?evs) =
               [file_message (example_files ! 0) [0xFF, 0xD8] 0 2]"
    by (simp add: mixed_sendFiles accepts_def file_message_def untyped_file_def
        example_files_def)
  have d: "delivered ?r = []"
    by (simp add: mixed_sendFiles receiver_run_def on_connection_def on_data_def accepts_def
        file_message_def untyped_file_def example_files_def initial_receiver_def)
  have f: "received_file (file_message (example_files ! 0) [0xFF, 0xD8] 0 2) = example_files ! 0"
    by (simp add: received_file_def file_message_def new_File_def new_Blob_def example_types example_files_def)
  have t: "msg_type done_message = ''done''"
    by (simp add: done_message_def)
  from finalized_collection_length [of ?r None example_location ?evs 1 done_message] acc d f t
       acc0 z
  show ?thesis
    by simp
qed

text \<open>
  C3, as the specification states it, fails: of the two file messages the sender
  transmits for a batch of a JPEG photo and a file of unknown type, the receiver keeps
  one, and the collection it delivers on the done message has length one.
\<close>

theorem finalized_collection_length_counterexample:
  "length (filter is_file_type (wire (fst (sendFiles mixed_sender)))) = 2 \<and>
   last (wire (fst (sendFiles mixed_sender))) = done_message \<and>
   delivered
     (receiver_run None example_location initial_receiver
        (Connection # map Data (wire (fst (sendFiles mixed_sender))))) =
     [[example_files ! 0]] \<and>
   length
     (last (delivered
        (receiver_run None example_location initial_receiver
           (Connection # map Data (wire (fst (sendFiles mixed_sender))))))) = 1"
  by (simp add: mixed_sendFiles is_file_type_def receiver_run_def on_connection_def on_data_def
      accepts_def file_message_def done_message_def untyped_file_def example_files_def
      initial_receiver_def received_file_def new_File_def new_Blob_def example_types)

text \<open>
  C4, as the code has it. A file with a name that is not empty and a MIME type that is
  not empty and has the form the file constructors store (printable ASCII without a
  capital letter, as the types of the platform's file objects are), sent as a file
  message with its bytes, is appended by the receiver as a file of the same name, the
  same MIME type and the same bytes, and as nothing else. Whatever the form of a
  non-empty type, the file appended has the name and the bytes sent and the type as
  the constructors store it.
\<close>

theorem file_round_trip:
  assumes "file_content f = Some B"
    and "file_name f \<noteq> []"
    and "file_type f \<noteq> []"
  shows "receivedFiles (on_data (file_message f B i n) r) =
           receivedFiles r @
             [\<lparr> file_name = file_name f, file_type = normalize_type (file_type f),
                file_content = Some B \<rparr>] \<and>
         (stored_form (file_type f) \<longrightarrow>
            receivedFiles (on_data (file_message f B i n) r) = receivedFiles r @ [f] \<and>
            file_name (last (receivedFiles (on_data (file_message f B i n) r))) = file_name f \<and>
            file_type (last (receivedFiles (on_data (file_message f B i n) r))) = file_type f \<and>
            file_content (last (receivedFiles (on_data (file_message f B i n) r))) = Some B)"
proof -
  have acc: "accepts (file_message f B i n)"
    using assms(2,3) by (simp add: accepts_def file_message_def)
  have raw: "received_file (file_message f B i n) =
           \<lparr> file_name = file_name f, file_type = normalize_type (file_type f),
             file_content = Some B \<rparr>"
    by (simp add: received_file_def file_message_def new_File_def new_Blob_def)
  have general: "receivedFiles (on_data (file_message f B i n) r) =
           receivedFiles r @
             [\<lparr> file_name = file_name f, file_type = normalize_type (file_type f),
                file_content = Some B \<rparr>]"
    using acc raw by (simp add: on_data_receivedFiles)
  have same: "\<lparr> file_name = file_name f, file_type = normalize_type (file_type f),
                file_content = Some B \<rparr> = f" if "stored_form (file_type f)"
    using normalize_type_stored [OF that] assms(1) by simp
  from general same assms(1) show ?thesis
    by auto
qed

theorem file_round_trip_witness:
  "file_content (example_files ! 1) = Some [0x89] \<and>
   file_name (example_files ! 1) \<noteq> [] \<and>
   file_type (example_files ! 1) \<noteq> [] \<and>
   stored_form (file_type (example_files ! 1)) \<and>
   receivedFiles (on_data (file_message (example_files ! 1) [0x89] 1 2) example_receiving) =
     [example_files ! 0, example_files ! 1] \<and>
   file_name (last (receivedFiles
      (on_data (file_message (example_files ! 1) [0x89] 1 2) example_receiving))) = ''b.png'' \<and>
   file_type (last (receivedFiles
      (on_data (file_message (example_files ! 1) [0x89] 1 2) example_receiving))) = ''image/png'' \<and>
   receivedFiles (on_data (file_message capital_file [0xFF] 0 1) initial_receiver) =
     [\<lparr> file_name = ''C.JPG'', file_type = ''image/jpeg'', file_content = Some [0xFF] \<rparr>]"
proof -
  have h1: "file_content (example_files ! 1) = Some [0x89]"
    by (simp add: example_files_def)
  have h2: "file_name (example_files ! 1) \<noteq> []"
    by (simp add: example_files_def)
  have h3: "file_type (example_files ! 1) \<noteq> []"
    by (simp add: example_files_def)
  have h4: "stored_form (file_type (example_files ! 1))"
    by (simp add: example_files_def stored_form_def printable_ascii_def ascii_capital_def)
  have v: "file_name (example_files ! 1) = ''b.png'' \<and> file_type (example_files ! 1) = ''image/png''"
    by (simp add: example_files_def)
  have a: "receivedFiles (on_data (file_message (example_files ! 1) [0x89] 1 2) example_receiving) =
     [example_files ! 0, example_files ! 1] \<and>
   file_name (last (receivedFiles
      (on_data (file_message (example_files ! 1) [0x89] 1 2) example_receiving))) = ''b.png'' \<and>
   file_type (last (receivedFiles
      (on_data (file_message (example_files ! 1) [0x89] 1 2) example_receiving))) = ''image/png''"
  proof -
    from file_round_trip [OF h1 h2 h3, of 1 2 example_receiving] h4
    have rt: "receivedFiles (on_data (file_message (example_files ! 1) [0x89] 1 2) example_receiving) =
                receivedFiles example_receiving @ [example_files ! 1]"
      and nm: "file_name (last (receivedFiles
                (on_data (file_message (example_files ! 1) [0x89] 1 2) example_receiving))) =
                file_name (example_files ! 1)"
      and ty: "file_type (last (receivedFiles
                (on_data (file_message (example_files ! 1) [0x89] 1 2) example_receiving))) =
                file_type (example_files ! 1)"
      by blast+
    have "receivedFiles example_receiving = [example_files ! 0]"
      by (simp add: example_receiving_state)
    with rt nm ty v show ?thesis
      by simp
  qed
  have c1: "file_content capital_file = Some [0xFF]"
    by (simp add: capital_file_def)
  have c2: "file_name capital_file \<noteq> []"
    by (simp add: capital_file_def)
  have c3: "file_type capital_file \<noteq> []"
    by (simp add: capital_file_def)
  have b: "receivedFiles (on_data (file_message capital_file [0xFF] 0 1) initial_receiver) =
     [\<lparr> file_name = ''C.JPG'', file_type = ''image/jpeg'', file_content = Some [0xFF] \<rparr>]"
    using file_round_trip [OF c1 c2 c3, of 0 1 initial_receiver]
    by (simp add: capital_file_def capital_type_lowered initial_receiver_def)
  from h1 h2 h3 h4 a b show ?thesis
    by blast
qed

text \<open>
  C4, as the specification states it, fails for a file whose MIME type is empty: the
  sender transmits it, and the receiver appends no file for it.
\<close>

theorem file_round_trip_counterexample:
  "wire (fst (sendFiles mixed_sender)) ! 1 = file_message untyped_file [0x00] 1 2 \<and>
   file_name untyped_file = ''scan.heic'' \<and>
   file_type untyped_file = [] \<and>
   file_content untyped_file = Some [0x00] \<and>
   receivedFiles (on_data (file_message untyped_file [0x00] 1 2) example_receiving) =
     receivedFiles example_receiving"
  by (simp add: mixed_sendFiles on_data_def accepts_def file_message_def untyped_file_def)

text \<open>
  C2. A done message followed by a close of the channel: the receiver calls the
  hosting application twice, each time with the one file it has received.
\<close>

theorem close_after_done_delivers_again:
  "delivered
     (receiver_run None example_location initial_receiver
        [PeerOpen ''abc'', Connection,
         Data (file_message (example_files ! 0) [0xFF, 0xD8] 0 1),
         Data done_message,
         Close]) =
     [[example_files ! 0], [example_files ! 0]]"
  by (simp add: receiver_run_def on_peer_open_def on_connection_def on_data_def on_close_def
      accepts_def file_message_def done_message_def example_files_def initial_receiver_def
      received_file_def new_File_def new_Blob_def example_types)

section \<open>Properties of the choice of role\<close>

lemma params_get_Some:
  "params_get ps k = Some v \<longleftrightarrow>
     (\<exists>pre post. ps = pre @ (k, v) # post \<and> k \<notin> fst ` set pre)"
proof (induction ps)
  case Nil
  show ?case by simp
next
  case (Cons p ps)
  obtain n w where p: "p = (n, w)" by (cases p)
  show ?case
  proof (cases "n = k")
    case True
    have "(\<exists>pre post. (k, w) # ps = pre @ (k, v) # post \<and> k \<notin> fst ` set pre) \<longleftrightarrow> w = v"
    proof
      assume "\<exists>pre post. (k, w) # ps = pre @ (k, v) # post \<and> k \<notin> fst ` set pre"
      then obtain pre post where e: "(k, w) # ps = pre @ (k, v) # post" and f: "k \<notin> fst ` set pre"
        by blast
      show "w = v"
      proof (cases pre)
        case Nil
        with e show ?thesis by simp
      next
        case (Cons a pre')
        with e have "a = (k, w)" by simp
        with Cons f show ?thesis by simp
      qed
    next
      assume "w = v"
      then have "(k, w) # ps = [] @ (k, v) # ps \<and> k \<notin> fst ` set []" by simp
      then show "\<exists>pre post. (k, w) # ps = pre @ (k, v) # post \<and> k \<notin> fst ` set pre"
        by blast
    qed
    with True p show ?thesis by auto
  next
    case False
    have "(\<exists>pre post. (n, w) # ps = pre @ (k, v) # post \<and> k \<notin> fst ` set pre) \<longleftrightarrow>
          (\<exists>pre post. ps = pre @ (k, v) # post \<and> k \<notin> fst ` set pre)"
    proof
      assume "\<exists>pre post. (n, w) # ps = pre @ (k, v) # post \<and> k \<notin> fst ` set pre"
      then obtain pre post where e: "(n, w) # ps = pre @ (k, v) # post" and f: "k \<notin> fst ` set pre"
        by blast
      show "\<exists>pre post. ps = pre @ (k, v) # post \<and> k \<notin> fst ` set pre"
      proof (cases pre)
        case Nil
        with e False show ?thesis by simp
      next
        case (Cons a pre')
        with e f have "ps = pre' @ (k, v) # post \<and> k \<notin> fst ` set pre'" by simp
        then show ?thesis by blast
      qed
    next
      assume "\<exists>pre post. ps = pre @ (k, v) # post \<and> k \<notin> fst ` set pre"
      then obtain pre post where e: "ps = pre @ (k, v) # post" and f: "k \<notin> fst ` set pre"
        by blast
      from e f False have "(n, w) # ps = ((n, w) # pre) @ (k, v) # post \<and> k \<notin> fst ` set ((n, w) # pre)"
        by auto
      then show "\<exists>pre post. (n, w) # ps = pre @ (k, v) # post \<and> k \<notin> fst ` set pre"
        by blast
    qed
    with False p Cons.IH show ?thesis by simp
  qed
qed

lemma params_has_iff: "params_has ps k \<longleftrightarrow> (\<exists>v. (k, v) \<in> set ps)"
  by (induction ps) (auto split: if_splits)

lemma example_search_params:
  "URLSearchParams ''?mode=upload&peer=abc'' = [(''mode'', ''upload''), (''peer'', ''abc'')]"
  by (simp add: URLSearchParams_def parse_pair_def plus_to_space_def)

lemma empty_peer_search_params:
  "URLSearchParams ''?mode=upload&peer='' = [(''mode'', ''upload''), (''peer'', [])]"
  by (simp add: URLSearchParams_def parse_pair_def plus_to_space_def)

text \<open>
  C5, as the code has it. The sender is chosen exactly when the first \<open>mode\<close>
  parameter of the query string has the value \<open>upload\<close> and the query string has a
  \<open>peer\<close> parameter, whatever its value; in every other case the receiver is chosen.
  A sender chosen with an empty \<open>peer\<close> value starts in its error state.
\<close>

theorem role_selection:
  "(root_component search = MobileUpload \<longleftrightarrow>
      (\<exists>pre post. URLSearchParams search = pre @ (''mode'', ''upload'') # post \<and>
         ''mode'' \<notin> fst ` set pre) \<and>
      (\<exists>v. (''peer'', v) \<in> set (URLSearchParams search))) \<and>
   (root_component search = App \<longleftrightarrow> root_component search \<noteq> MobileUpload) \<and>
   (root_component search = MobileUpload \<and> remotePeerId search = [] \<longrightarrow>
      status (mount_sender search) = Error)"
proof -
  have a: "root_component search = MobileUpload \<longleftrightarrow>
      (\<exists>pre post. URLSearchParams search = pre @ (''mode'', ''upload'') # post \<and>
         ''mode'' \<notin> fst ` set pre) \<and>
      (\<exists>v. (''peer'', v) \<in> set (URLSearchParams search))"
    by (simp add: root_component_def isMobileUpload_def Let_def params_get_Some params_has_iff)
  have b: "root_component search = App \<longleftrightarrow> root_component search \<noteq> MobileUpload"
    by (simp add: root_component_def)
  have c: "remotePeerId search = [] \<longrightarrow> status (mount_sender search) = Error"
    by (simp add: mount_sender_def)
  from a b c show ?thesis
    by blast
qed

theorem role_selection_witness:
  "root_component ''?mode=upload&peer=abc'' = MobileUpload \<and>
   URLSearchParams ''?mode=upload&peer=abc'' = [] @ (''mode'', ''upload'') # [(''peer'', ''abc'')] \<and>
   root_component ''?peer=abc'' = App \<and>
   root_component ''?mode=upload&peer='' = MobileUpload \<and>
   remotePeerId ''?mode=upload&peer='' = [] \<and>
   status (mount_sender ''?mode=upload&peer='') = Error"
proof -
  have e1: "URLSearchParams ''?mode=upload&peer=abc'' =
              [] @ (''mode'', ''upload'') # [(''peer'', ''abc'')]"
    by (simp add: example_search_params)
  have m1: "''mode'' \<notin> fst ` set ([] :: (string \<times> string) list)"
    by simp
  have p1: "(''peer'', ''abc'') \<in> set (URLSearchParams ''?mode=upload&peer=abc'')"
    by (simp add: example_search_params)
  have r1: "root_component ''?mode=upload&peer=abc'' = MobileUpload"
    using role_selection [of "''?mode=upload&peer=abc''"] e1 m1 p1 by blast
  have e2: "URLSearchParams ''?peer=abc'' = [(''peer'', ''abc'')]"
    by (simp add: URLSearchParams_def parse_pair_def plus_to_space_def)
  have r2: "root_component ''?peer=abc'' = App"
    by (simp add: root_component_def isMobileUpload_def e2)
  have e3: "URLSearchParams ''?mode=upload&peer='' = [] @ (''mode'', ''upload'') # [(''peer'', [])]"
    by (simp add: empty_peer_search_params)
  have p3: "(''peer'', []) \<in> set (URLSearchParams ''?mode=upload&peer='')"
    by (simp add: empty_peer_search_params)
  have r3: "root_component ''?mode=upload&peer='' = MobileUpload"
    using role_selection [of "''?mode=upload&peer=''"] e3 m1 p3 by blast
  have i3: "remotePeerId ''?mode=upload&peer='' = []"
    by (simp add: remotePeerId_def empty_peer_search_params)
  have s3: "status (mount_sender ''?mode=upload&peer='') = Error"
    using role_selection [of "''?mode=upload&peer=''"] r3 i3 by blast
  from r1 e1 r2 r3 i3 s3 show ?thesis
    by blast
qed

text \<open>
  C5, as the specification states it, fails: with \<open>mode=upload\<close> and an empty \<open>peer\<close>
  value the sender is chosen, not the receiver.
\<close>

theorem role_selection_counterexample:
  "params_get (URLSearchParams ''?mode=upload&peer='') ''peer'' = Some [] \<and>
   isMobileUpload ''?mode=upload&peer='' \<and>
   root_component ''?mode=upload&peer='' = MobileUpload"
  by (simp add: root_component_def isMobileUpload_def empty_peer_search_params)

section \<open>Properties of the published address\<close>

lemma scan_interface_Some:
  "scan_interface l = Some a \<Longrightarrow>
   \<exists>i\<in>set l. family i = ''IPv4'' \<and> \<not> internal i \<and> address i = a"
  by (induction l) (auto split: if_splits)

lemma scan_interface_None:
  "scan_interface l = None \<Longrightarrow> i \<in> set l \<Longrightarrow> \<not> (family i = ''IPv4'' \<and> \<not> internal i)"
  by (induction l) (auto split: if_splits)

lemma all_interfaces_Nil: "all_interfaces [] = []"
  by (simp add: all_interfaces_def)

lemma all_interfaces_Cons:
  "all_interfaces ((name, entry) # ifs) =
     (case entry of None \<Rightarrow> [] | Some l \<Rightarrow> l) @ all_interfaces ifs"
  by (simp add: all_interfaces_def)

lemma scan_interfaces_Some:
  "scan_interfaces ifs = Some a \<Longrightarrow>
   \<exists>i\<in>set (all_interfaces ifs). family i = ''IPv4'' \<and> \<not> internal i \<and> address i = a"
proof (induction ifs)
  case Nil
  then show ?case by simp
next
  case (Cons e ifs)
  obtain name entry where e: "e = (name, entry)" by (cases e)
  let ?l = "case entry of None \<Rightarrow> [] | Some l \<Rightarrow> l"
  show ?case
  proof (cases "scan_interface ?l")
    case None
    with Cons.prems e have "scan_interfaces ifs = Some a" by simp
    from Cons.IH [OF this] e show ?thesis
      by (auto simp: all_interfaces_Cons)
  next
    case (Some b)
    with Cons.prems e have "b = a" by simp
    with scan_interface_Some [OF Some] e show ?thesis
      by (auto simp: all_interfaces_Cons)
  qed
qed

lemma scan_interfaces_None:
  "scan_interfaces ifs = None \<Longrightarrow> i \<in> set (all_interfaces ifs) \<Longrightarrow>
   \<not> (family i = ''IPv4'' \<and> \<not> internal i)"
proof (induction ifs)
  case Nil
  then show ?case by (simp add: all_interfaces_Nil)
next
  case (Cons e ifs)
  obtain name entry where e: "e = (name, entry)" by (cases e)
  let ?l = "case entry of None \<Rightarrow> [] | Some l \<Rightarrow> l"
  from Cons.prems(1) e have here: "scan_interface ?l = None"
    by (auto split: option.splits)
  with Cons.prems(1) e have rest: "scan_interfaces ifs = None"
    by simp
  from Cons.prems(2) e have "i \<in> set ?l \<or> i \<in> set (all_interfaces ifs)"
    by (auto simp: all_interfaces_Cons)
  then show ?case
  proof
    assume "i \<in> set ?l"
    from scan_interface_None [OF here this] show ?thesis .
  next
    assume "i \<in> set (all_interfaces ifs)"
    from Cons.IH [OF rest this] show ?thesis .
  qed
qed

text \<open>Without an IPv4 interface that is not internal, the build puts the name
  \<open>localhost\<close> in place of an address.\<close>

lemma getLocalIP_fallback:
  "\<forall>i\<in>set (all_interfaces ifs). \<not> (family i = ''IPv4'' \<and> \<not> internal i) \<Longrightarrow>
   getLocalIP ifs = ''localhost''"
proof (cases "scan_interfaces ifs")
  case None
  then show ?thesis by (simp add: getLocalIP_def)
next
  case (Some a)
  assume "\<forall>i\<in>set (all_interfaces ifs). \<not> (family i = ''IPv4'' \<and> \<not> internal i)"
  with scan_interfaces_Some [OF Some] show ?thesis by blast
qed

lemma scan_interface_find:
  "scan_interface l =
     map_option address (find (\<lambda>i. family i = ''IPv4'' \<and> \<not> internal i) l)"
  by (induction l) auto

lemma find_append_first:
  "find P (xs @ ys) = (case find P xs of None \<Rightarrow> find P ys | Some x \<Rightarrow> Some x)"
  by (induction xs) auto

text \<open>The two loops of \<open>getLocalIP\<close> find the first IPv4 interface that is not internal,
  in the order of the interface names and, under one name, of its entries.\<close>

lemma scan_interfaces_find:
  "scan_interfaces ifs =
     map_option address
       (find (\<lambda>i. family i = ''IPv4'' \<and> \<not> internal i) (all_interfaces ifs))"
proof (induction ifs)
  case Nil
  show ?case by (simp add: all_interfaces_Nil)
next
  case (Cons e ifs)
  obtain name entry where e: "e = (name, entry)" by (cases e)
  let ?l = "case entry of None \<Rightarrow> [] | Some l \<Rightarrow> l"
  show ?case
  proof (cases "find (\<lambda>i. family i = ''IPv4'' \<and> \<not> internal i) ?l")
    case None
    then have "scan_interface ?l = None"
      by (simp add: scan_interface_find)
    with None Cons.IH e show ?thesis
      by (simp add: all_interfaces_Cons find_append_first)
  next
    case (Some i)
    then have "scan_interface ?l = Some (address i)"
      by (simp add: scan_interface_find)
    with Some e show ?thesis
      by (simp add: all_interfaces_Cons find_append_first)
  qed
qed

text \<open>
  C6, as the code has it. The address the receiver publishes is the page's scheme, two
  slashes, a host, the page's port after a colon when the page has one, and the query
  with the peer identifier. When the page's host is \<open>localhost\<close> or \<open>127.0.0.1\<close>, the
  host published is the value the build resolved: the address of the first IPv4
  interface of the build machine that is not internal, or the name \<open>localhost\<close> when
  the machine has no such interface (an empty address leaves the page's host). For
  every other page host, the names of the loopback interface other than these two
  included, the host published is the page's own.
\<close>

theorem published_address:
  "qrUrl (on_peer_open (defined_LOCAL_IP ifs) loc pid r) =
     protocol loc @ ''//'' @
     (if hostname loc = ''localhost'' \<or> hostname loc = ''127.0.0.1''
      then (case find (\<lambda>i. family i = ''IPv4'' \<and> \<not> internal i) (all_interfaces ifs) of
              None \<Rightarrow> ''localhost''
            | Some i \<Rightarrow> if address i = [] then hostname loc else address i)
      else hostname loc) @
     (if port loc = [] then [] else '':'' @ port loc) @
     ''?mode=upload&peer='' @ pid"
proof (cases "find (\<lambda>i. family i = ''IPv4'' \<and> \<not> internal i) (all_interfaces ifs)")
  case None
  then have "defined_LOCAL_IP ifs = Some ''localhost''"
    by (simp add: defined_LOCAL_IP_def getLocalIP_def scan_interfaces_find)
  with None show ?thesis
    by (simp add: on_peer_open_def qr_url_def Let_def)
next
  case (Some i)
  then have "defined_LOCAL_IP ifs = Some (address i)"
    by (simp add: defined_LOCAL_IP_def getLocalIP_def scan_interfaces_find)
  with Some show ?thesis
    by (simp add: on_peer_open_def qr_url_def Let_def)
qed

theorem published_address_witness:
  "find (\<lambda>i. family i = ''IPv4'' \<and> \<not> internal i) (all_interfaces example_interfaces) =
     Some \<lparr> family = ''IPv4'', internal = False, address = ''192.168.1.20'' \<rparr> \<and>
   qrUrl (on_peer_open (defined_LOCAL_IP example_interfaces) example_location ''abc''
      initial_receiver) = ''http://192.168.1.20:3000?mode=upload&peer=abc'' \<and>
   qrUrl (on_peer_open (defined_LOCAL_IP example_interfaces) lan_location ''abc''
      initial_receiver) = ''https://192.168.1.20?mode=upload&peer=abc''"
proof -
  have f: "find (\<lambda>i. family i = ''IPv4'' \<and> \<not> internal i) (all_interfaces example_interfaces) =
             Some \<lparr> family = ''IPv4'', internal = False, address = ''192.168.1.20'' \<rparr>"
    by (simp add: all_interfaces_def example_interfaces_def)
  have u1: "qrUrl (on_peer_open (defined_LOCAL_IP example_interfaces) example_location ''abc''
      initial_receiver) = ''http://192.168.1.20:3000?mode=upload&peer=abc''"
    using published_address [of example_interfaces example_location "''abc''" initial_receiver]
    by (simp add: f example_location_def)
  have u2: "qrUrl (on_peer_open (defined_LOCAL_IP example_interfaces) lan_location ''abc''
      initial_receiver) = ''https://192.168.1.20?mode=upload&peer=abc''"
    using published_address [of example_interfaces lan_location "''abc''" initial_receiver]
    by (simp add: f lan_location_def)
  from f u1 u2 show ?thesis
    by blast
qed

text \<open>
  C6, as the specification states it, fails at a page served from the IPv6 loopback
  address, whose host is published as it is although the build machine has an external
  address, and at a build machine without an external interface, for which the page
  host \<open>127.0.0.1\<close> is replaced by the name \<open>localhost\<close>.
\<close>

theorem published_address_counterexample:
  "qrUrl (on_peer_open (defined_LOCAL_IP example_interfaces) ipv6_loopback_location ''abc''
      initial_receiver) = ''http://[::1]:5173?mode=upload&peer=abc'' \<and>
   getLocalIP example_interfaces = ''192.168.1.20'' \<and>
   qrUrl (on_peer_open (defined_LOCAL_IP loopback_only_interfaces) numeric_loopback_location
      ''abc'' initial_receiver) = ''http://localhost:3000?mode=upload&peer=abc'' \<and>
   getLocalIP loopback_only_interfaces = ''localhost''"
  by (simp add: on_peer_open_def qr_url_def defined_LOCAL_IP_def getLocalIP_def
      example_interfaces_def loopback_only_interfaces_def ipv6_loopback_location_def
      numeric_loopback_location_def)

section \<open>Properties of the extraction and of the document\<close>


lemma extract_loop_rejected:
  "Inl e \<in> set responses \<Longrightarrow> \<exists>e'. extract_loop parse responses acc = Inl e'"
proof (induction responses arbitrary: acc)
  case Nil
  then show ?case by simp
next
  case (Cons r rs)
  show ?case
  proof (cases r)
    case (Inl a)
    then show ?thesis by simp
  next
    case (Inr t)
    with Cons.prems have "Inl e \<in> set rs" by auto
    from Cons.IH [OF this] Inr show ?thesis
      by (cases "parse (text_or t ''[]'')") simp_all
  qed
qed

text \<open>Whatever the loops over the parsed values throw is a \<open>TypeError\<close>.\<close>

lemma get_member_error: "get_member v k = Inl e \<Longrightarrow> e = TypeError"
  by (cases v) auto

lemma js_toString_error_aux:
  "js_toString v = Inl e \<longrightarrow> e = TypeError"
  "js_join sep items = Inl e \<longrightarrow> e = TypeError"
proof (induction v and sep items rule: js_toString_js_join.induct)
  case (9 sep x rest)
  have head: "js_toString x = Inl e \<longrightarrow> e = TypeError"
    using "9.IH"(1-5) by (cases x) auto
  show ?case
  proof (cases "case x of JUndefined \<Rightarrow> Inr [] | JNull \<Rightarrow> Inr [] | _ \<Rightarrow> js_toString x")
    case (Inl a)
    then have "js_toString x = Inl a"
      by (cases x) auto
    with Inl head show ?thesis
      by auto
  next
    case (Inr b)
    show ?thesis
    proof (cases "rest = []")
      case True
      with Inr show ?thesis by simp
    next
      case False
      from "9.IH"(6) [OF Inr False] Inr False show ?thesis
        by (auto split: sum.splits)
    qed
  qed
qed (auto split: if_splits)

lemma js_toString_error:
  "js_toString v = Inl e \<Longrightarrow> e = TypeError"
  "js_join sep items = Inl e \<Longrightarrow> e = TypeError"
  using js_toString_error_aux by blast+

lemma text_members_error: "text_members bs = Inl e \<Longrightarrow> e = TypeError"
  by (induction bs arbitrary: e) (auto split: sum.splits dest: get_member_error)

lemma image_text_error: "image_text v = Inl e \<Longrightarrow> e = TypeError"
  by (cases v)
     (auto simp: image_text_def split: sum.splits
        dest: text_members_error js_toString_error(2))

lemma image_texts_error: "image_texts vs = Inl e \<Longrightarrow> e = TypeError"
  by (induction vs arbitrary: e) (auto split: sum.splits dest: image_text_error)

lemma js_add_block_error: "js_add_block acc b = Inl e \<Longrightarrow> e = TypeError"
  by (cases acc)
     (auto simp: js_add_block_def split: sum.splits
        dest: get_member_error js_toString_error(1))

lemma js_add_blocks_error: "js_add_blocks acc bs = Inl e \<Longrightarrow> e = TypeError"
  by (induction bs arbitrary: acc) (auto split: sum.splits dest: js_add_block_error)

lemma js_add_image_error: "js_add_image acc v = Inl e \<Longrightarrow> e = TypeError"
  by (cases v)
     (auto simp: js_add_image_def split: sum.splits prod.splits dest: js_add_blocks_error)

lemma js_add_images_error: "js_add_images acc vs = Inl e \<Longrightarrow> e = TypeError"
  by (induction vs arbitrary: acc) (auto split: sum.splits dest: js_add_image_error)



















lemma foldl_add_block:
  "fst (foldl add_block acc bs) = fst acc @ map block_paragraph bs"
  by (induction bs arbitrary: acc) (auto simp: add_block_def split: prod.splits)

lemma add_image_children:
  "fst (add_image acc bs) = fst acc @ map block_paragraph bs @ [blank_paragraph]"
  using foldl_add_block [of acc bs]
  by (auto simp: add_image_def split: prod.splits)

lemma foldl_add_image:
  "fst (foldl add_image acc extractedData) =
     fst acc @ concat (map (\<lambda>bs. map block_paragraph bs @ [blank_paragraph]) extractedData)"
  by (induction extractedData arbitrary: acc) (simp_all add: add_image_children)

text \<open>The paragraphs of the document: for each image in turn, one paragraph for each
  of its blocks, aligned as the block is, and then a blank paragraph.\<close>

lemma document_children_paragraphs:
  "fst (document_children extractedData) =
     concat (map (\<lambda>bs. map block_paragraph bs @ [blank_paragraph]) extractedData)"
  by (simp add: document_children_def foldl_add_image)

lemma document_ends_blank:
  "extractedData \<noteq> [] \<Longrightarrow> last (fst (document_children extractedData)) = blank_paragraph"
proof (induction extractedData rule: rev_induct)
  case Nil
  then show ?case by simp
next
  case (snoc bs rest)
  show ?case
    by (simp add: document_children_paragraphs)
qed

text \<open>
  C9. The document of a single image with the single centred block \<open>A\<close>: the block's
  paragraph, and after it, after the last image, a blank paragraph.
\<close>

theorem blank_paragraph_after_last_image:
  "fst (document_children [[\<lparr> block_text = ''A'', block_alignment = AlignCenter \<rparr>]]) =
     [\<lparr> para_alignment = Some CENTER, para_run = ''A'', para_spacing_after = Some 200 \<rparr>,
      blank_paragraph]"
  by (simp add: document_children_def add_image_def add_block_def block_paragraph_def
      alignmentMap_def)

end
